theory Spec2Isabelle
  imports Complex_Main
begin

section \<open>Errors and plane vectors\<close>

text \<open>
  The generator raises Python's \<open>ZeroDivisionError\<close> (integer division by a zero gcd),
  a \<open>RuntimeError\<close> (symmetry vector search exhausted) and, on the command line path,
  the argument parser's error (which prints the message and exits).
\<close>

datatype error = ZeroDivisionError | RuntimeError string | ParserError string

text \<open>
  numpy arrays of two and three floats. Floating point numbers are modelled by the
  reals: rounding, \<open>inf\<close> and \<open>nan\<close> are outside the model, and where numpy would
  produce \<open>nan\<close> from a division by zero the definitions below say so in a comment.
\<close>

type_synonym vec2 = "real \<times> real"
type_synonym vec3 = "real \<times> real \<times> real"

definition vadd :: "vec2 \<Rightarrow> vec2 \<Rightarrow> vec2" where
  "vadd u v = (fst u + fst v, snd u + snd v)"

definition vsub :: "vec2 \<Rightarrow> vec2 \<Rightarrow> vec2" where
  "vsub u v = (fst u - fst v, snd u - snd v)"

definition smul :: "real \<Rightarrow> vec2 \<Rightarrow> vec2" where
  "smul c v = (c * fst v, c * snd v)"

definition dot :: "vec2 \<Rightarrow> vec2 \<Rightarrow> real" where
  "dot u v = fst u * fst v + snd u * snd v"

definition linalg_norm :: "vec2 \<Rightarrow> real" where
  "linalg_norm v = sqrt ((fst v)\<^sup>2 + (snd v)\<^sup>2)"

text \<open>
  Python's float \<open>x % y\<close>: the remainder of the floored quotient. For \<open>y = 0\<close> numpy
  yields \<open>nan\<close>, which the model does not represent.
\<close>

definition fmod :: "real \<Rightarrow> real \<Rightarrow> real" where
  "fmod x y = x - y * of_int \<lfloor>x / y\<rfloor>"

text \<open>Python's \<open>a // b\<close> on integers.\<close>

definition floordiv :: "int \<Rightarrow> int \<Rightarrow> error + int" where
  "floordiv a b = (if b = 0 then Inl ZeroDivisionError else Inr (a div b))"

section \<open>Vector algebra of the generator\<close>

record tubegen =
  chirality :: "int \<times> int"
  spacing :: real

definition n_hex_ucell :: "tubegen \<Rightarrow> error + int" where
  "n_hex_ucell g =
     (case chirality g of (n, m) \<Rightarrow>
        floordiv (2 * (m * m + n * n + m * n)) (gcd (2 * m + n) (2 * n + m)))"

definition n_atoms_ucell :: "tubegen \<Rightarrow> error + int" where
  "n_atoms_ucell g =
     (case n_hex_ucell g of Inl e \<Rightarrow> Inl e | Inr h \<Rightarrow> Inr (2 * h))"

definition unit_vectors :: "tubegen \<Rightarrow> vec2 \<times> vec2" where
  "unit_vectors g =
     (smul (spacing g) (3 / 2, sqrt 3 / 2), smul (spacing g) (3 / 2, - sqrt 3 / 2))"

definition chiral_vector :: "tubegen \<Rightarrow> vec2" where
  "chiral_vector g =
     (case unit_vectors g of (a1, a2) \<Rightarrow>
        vadd (smul (of_int (fst (chirality g))) a1) (smul (of_int (snd (chirality g))) a2))"

definition circumference :: "tubegen \<Rightarrow> real" where
  "circumference g = linalg_norm (chiral_vector g)"

definition diameter :: "tubegen \<Rightarrow> real" where
  "diameter g = circumference g / pi"

text \<open>
  \<open>(2*m+n)/dR\<close> is Python's true division of two integers: it raises
  \<open>ZeroDivisionError\<close> for \<open>dR = 0\<close>.
\<close>

definition translation_vector_lat_basis :: "tubegen \<Rightarrow> error + (real \<times> real)" where
  "translation_vector_lat_basis g =
     (case chirality g of (n, m) \<Rightarrow>
        (let dR = gcd (2 * m + n) (2 * n + m)
         in if dR = 0 then Inl ZeroDivisionError
            else Inr (of_int (2 * m + n) / of_int dR, - of_int (2 * n + m) / of_int dR)))"

definition translation_vector :: "tubegen \<Rightarrow> error + vec2" where
  "translation_vector g =
     (case unit_vectors g of (a1, a2) \<Rightarrow>
        (case translation_vector_lat_basis g of
           Inl e \<Rightarrow> Inl e
         | Inr (t1, t2) \<Rightarrow> Inr (vadd (smul t1 a1) (smul t2 a2))))"

text \<open>
  The test \<open>np.abs(q%1.) < 1e-10\<close> of the search loop, with \<open>q = (1 + p*t2)/t1\<close>.
  For \<open>t1 = 0\<close> numpy's float division gives \<open>inf\<close> or \<open>nan\<close>, \<open>q%1.\<close> is \<open>nan\<close>
  and the comparison is false.

  Both definitions compute in exact arithmetic. The code computes in IEEE doubles: the
  product \<open>p*t2\<close> is rounded once it passes \<open>2\<^sup>5\<^sup>3\<close>, and the quotient is rounded. While
  \<open>p*|t2| < 2\<^sup>5\<^sup>3\<close> the numerator is the same in both, and the two quotients differ by one
  rounding. Beyond that the two can decide differently: for \<open>t1 = 200000002\<close>,
  \<open>t2 = -400000001\<close> (chirality (200000000, 1)) the exact \<open>q\<close> at \<open>p = 66666667\<close> is the
  integer \<open>-133333333\<close>, while the doubles give \<open>-133333333.00000001\<close> and fail the test.
  Which \<open>p\<close> the search returns is therefore stated below only at an input where the
  candidate is \<open>p = 1\<close>.
\<close>

definition sym_q :: "real \<Rightarrow> real \<Rightarrow> int \<Rightarrow> real" where
  "sym_q t1 t2 p = (1 + of_int p * t2) / t1"

definition q_close_to_integer :: "real \<Rightarrow> real \<Rightarrow> int \<Rightarrow> bool" where
  "q_close_to_integer t1 t2 p \<longleftrightarrow> t1 \<noteq> 0 \<and> \<bar>fmod (sym_q t1 t2 p) 1\<bar> < 1 / 10 ^ 10"

text \<open>The loop \<open>for p in range(1, n_atoms_ucell()+1)\<close>, run over the list of candidates.\<close>

fun symmetry_search :: "real \<Rightarrow> real \<Rightarrow> int list \<Rightarrow> (int \<times> real) option" where
  "symmetry_search t1 t2 [] = None"
| "symmetry_search t1 t2 (p # ps) =
     (if q_close_to_integer t1 t2 p then Some (p, sym_q t1 t2 p)
      else symmetry_search t1 t2 ps)"

definition symmetry_vector :: "tubegen \<Rightarrow> error + vec2" where
  "symmetry_vector g =
     (case unit_vectors g of (a1, a2) \<Rightarrow>
        (case translation_vector_lat_basis g of
           Inl e \<Rightarrow> Inl e
         | Inr (t1, t2) \<Rightarrow>
             (case n_atoms_ucell g of
                Inl e \<Rightarrow> Inl e
              | Inr na \<Rightarrow>
                  (case symmetry_search t1 t2 [1..na] of
                     None \<Rightarrow> Inl (RuntimeError ''Unable to find symmetry vector'')
                   | Some (p, q) \<Rightarrow> Inr (vadd (smul (of_int p) a1) (smul q a2))))))"

section \<open>Sites\<close>

text \<open>
  A site as the collaborating lattice module stores it (index, position, neighbour
  indices, hopping strengths), and the attributes the generator attaches during
  construction: the sublattice tag \<open>even\<close> and the per-bond crossing lists on the sites
  of a unit cell, the replica tags \<open>pad_ch\<close>, \<open>pad_t\<close> on the sites of a padded lattice.
  A site made by \<open>Site(idx, pos, even=...)\<close> starts with no neighbours and no hopping.
  A lattice is its list of sites; its name and comment are never read by the generator
  and are left out.
\<close>

record 'p site =
  idx :: int
  pos :: 'p
  neighbours :: "int list"
  hopping :: "int list"

record 'p csite = "'p site" +
  even_attr :: bool
  cross_ch_boundary :: "int list"
  cross_t_boundary :: "int list"

record 'p psite = "'p csite" +
  pad_ch :: int
  pad_t :: int

text \<open>
  Modelled from the spec: \<open>lattice.shifted_lattice\<close> is not part of the source; the
  spec describes it as the operation that shifts all positions by a vector and produces
  a new collection, every other attribute being preserved in the copies.
\<close>

definition shifted_lattice ::
  "(vec2, 'z) site_scheme list \<Rightarrow> vec2 \<Rightarrow> (vec2, 'z) site_scheme list" where
  "shifted_lattice lat v = map (\<lambda>s. s\<lparr>pos := vadd (pos s) v\<rparr>) lat"

text \<open>
  The spatial lookup \<open>Lattice.at\<close> of the lattice module is not part of the source
  either; the functions that call it take it as the parameter \<open>site_at\<close> (\<open>at\<close> names a filter in HOL).
\<close>

type_synonym lookup = "vec2 psite list \<Rightarrow> vec2 \<Rightarrow> vec2 psite option"

section \<open>Unit cell builder\<close>

definition with_pad :: "vec2 csite \<Rightarrow> int \<Rightarrow> int \<Rightarrow> vec2 psite" where
  "with_pad s pc pt =
     \<lparr>idx = idx s, pos = pos s, neighbours = neighbours s, hopping = hopping s,
      even_attr = even_attr s, cross_ch_boundary = cross_ch_boundary s,
      cross_t_boundary = cross_t_boundary s, pad_ch = pc, pad_t = pt\<rparr>"

definition padded_lattice :: "tubegen \<Rightarrow> vec2 csite list \<Rightarrow> error + vec2 psite list" where
  "padded_lattice g lat =
     (let Ch = chiral_vector g in
      case translation_vector g of
        Inl e \<Rightarrow> Inl e
      | Inr T \<Rightarrow>
          Inr (concat (map (\<lambda>(pc, pt).
                 map (\<lambda>s. with_pad s pc pt)
                   (shifted_lattice lat (vadd (smul (of_int pc) Ch) (smul (of_int pt) T))))
               (List.product [0, 1, - 1] [0, 1, - 1]))))"

text \<open>
  The inner loop of \<open>_connect_sites\<close> over the three shifts: each lookup that finds a
  padded site appends its index and its replica tags.
\<close>

fun find_bonds :: "lookup \<Rightarrow> vec2 psite list \<Rightarrow> vec2 csite \<Rightarrow> vec2 list \<Rightarrow> (int \<times> int \<times> int) list" where
  "find_bonds site_at padded s [] = []"
| "find_bonds site_at padded s (shift # rest) =
     (let shifted = (if even_attr s then vadd (pos s) shift else vsub (pos s) shift)
      in (case site_at padded shifted of
            None \<Rightarrow> []
          | Some nb \<Rightarrow> [(idx nb, pad_ch nb, pad_t nb)]))
     @ find_bonds site_at padded s rest"

definition connect_site :: "lookup \<Rightarrow> vec2 psite list \<Rightarrow> vec2 list \<Rightarrow> vec2 csite \<Rightarrow> vec2 csite" where
  "connect_site site_at padded shifts s =
     (let bonds = find_bonds site_at padded s shifts;
          nbs = map fst bonds
      in s\<lparr>neighbours := nbs,
            hopping := replicate (length nbs) 1,
            cross_ch_boundary := map (\<lambda>b. fst (snd b)) bonds,
            cross_t_boundary := map (\<lambda>b. snd (snd b)) bonds\<rparr>)"

definition connect_sites :: "lookup \<Rightarrow> tubegen \<Rightarrow> vec2 csite list \<Rightarrow> error + vec2 csite list" where
  "connect_sites site_at g lat =
     (case padded_lattice g lat of
        Inl e \<Rightarrow> Inl e
      | Inr padded \<Rightarrow>
          (case unit_vectors g of (a1, a2) \<Rightarrow>
             (let shift0 = smul (1 / 3) (vadd a1 a2);
                  shift1 = vsub shift0 a1;
                  shift2 = vsub shift0 a2
              in Inr (map (connect_site site_at padded [shift0, shift1, shift2]) lat))))"

text \<open>
  \<open>Ch / ch\<close> divides each component. For a zero norm (spacing 0) numpy yields \<open>nan\<close>
  components; the model does not represent them.
\<close>

definition vdiv :: "vec2 \<Rightarrow> real \<Rightarrow> vec2" where
  "vdiv v c = (fst v / c, snd v / c)"

definition new_site :: "int \<Rightarrow> vec2 \<Rightarrow> bool \<Rightarrow> vec2 csite" where
  "new_site i p e =
     \<lparr>idx = i, pos = p, neighbours = [], hopping = [],
      even_attr = e, cross_ch_boundary = [], cross_t_boundary = []\<rparr>"

text \<open>
  The placement loop of \<open>_make_ucell\<close>; \<open>k\<close> is the running site index. The remainders
  are exact here and rounded in the code, so a projection that is an exact multiple of
  \<open>ch\<close> or \<open>t\<close> can land one unit in the last place below the period in the code and at
  0 here (chirality (3, 0) has such a site). For chirality (1, 1), the cell evaluated
  below, every remainder is taken well inside the period and the two agree.
\<close>

fun place_sites ::
  "vec2 \<Rightarrow> real \<Rightarrow> vec2 \<Rightarrow> real \<Rightarrow> vec2 \<Rightarrow> vec2 \<Rightarrow> int \<Rightarrow> int list \<Rightarrow> vec2 csite list" where
  "place_sites uCh ch uT t R eo_shift k [] = []"
| "place_sites uCh ch uT t R eo_shift k (i # rest) =
     (let iR = smul (of_int i) R;
          psi = fmod (dot iR uCh) ch;
          tau = fmod (dot iR uT) t;
          psi' = fmod (dot (vadd iR eo_shift) uCh) ch;
          tau' = fmod (dot (vadd iR eo_shift) uT) t
      in new_site k (vadd (smul psi uCh) (smul tau uT)) True
         # new_site (k + 1) (vadd (smul psi' uCh) (smul tau' uT)) False
         # place_sites uCh ch uT t R eo_shift (k + 2) rest)"

definition make_ucell :: "lookup \<Rightarrow> tubegen \<Rightarrow> error + vec2 csite list" where
  "make_ucell site_at g =
     (let Ch = chiral_vector g; ch = linalg_norm Ch; uCh = vdiv Ch ch in
      case translation_vector g of
        Inl e \<Rightarrow> Inl e
      | Inr T \<Rightarrow>
          (let t = linalg_norm T; uT = vdiv T t in
           case symmetry_vector g of
             Inl e \<Rightarrow> Inl e
           | Inr R \<Rightarrow>
               (case unit_vectors g of (a1, a2) \<Rightarrow>
                  (let eo_shift = smul (1 / 3) (vadd a1 a2) in
                   case n_atoms_ucell g of
                     Inl e \<Rightarrow> Inl e
                   | Inr na \<Rightarrow>
                       connect_sites site_at g
                         (place_sites uCh ch uT t R eo_shift 0 [0..na div 2 - 1])))))"

section \<open>Ribbon assembler\<close>

text \<open>
  The innermost loop of \<open>_sow_cells\<close> over
  \<open>zip(site.neighbours, site["cross_ch_boundary"], site["cross_t_boundary"])\<close> for a site
  of cell \<open>i\<close>. Python's \<open>%\<close> on integers is the floored remainder, as \<open>mod\<close> is.
\<close>

fun sow_bonds :: "int \<Rightarrow> int \<Rightarrow> int \<Rightarrow> string \<Rightarrow> string \<Rightarrow> (int \<times> int \<times> int) list \<Rightarrow> int list" where
  "sow_bonds i n_ucells luc bc_ch bc_t [] = []"
| "sow_bonds i n_ucells luc bc_ch bc_t ((neigh, xchb, xtb) # rest) =
     (if xchb = 0 \<or> bc_ch = ''periodic'' then
        (if xtb = 0 then [neigh + i * luc]
         else if xtb = 1 \<and> (bc_t = ''periodic'' \<or> i \<noteq> n_ucells - 1)
           then [neigh + (i + 1) mod n_ucells * luc]
         else if xtb = - 1 \<and> (bc_t = ''periodic'' \<or> i \<noteq> 0)
           then [neigh + (i - 1) mod n_ucells * luc]
         else [])
      else [])
     @ sow_bonds i n_ucells luc bc_ch bc_t rest"

definition site_bonds :: "('p, 'z) csite_scheme \<Rightarrow> (int \<times> int \<times> int) list" where
  "site_bonds s = zip (neighbours s) (zip (cross_ch_boundary s) (cross_t_boundary s))"

definition sow_site ::
  "int \<Rightarrow> int \<Rightarrow> int \<Rightarrow> string \<Rightarrow> string \<Rightarrow> ('p, 'z) csite_scheme \<Rightarrow> ('p, 'z) csite_scheme" where
  "sow_site i n_ucells luc bc_ch bc_t s =
     s\<lparr>neighbours := sow_bonds i n_ucells luc bc_ch bc_t (site_bonds s)\<rparr>"

text \<open>
  One pass of the outer loop: the sites of the slice \<open>sites[i*luc:(i+1)*luc]\<close> are
  updated in place, all others are left alone. \<open>luc\<close> is a length, hence a natural
  number; the cell index runs over \<open>range(n_ucells)\<close>, which is never negative.
\<close>

definition sow_cell ::
  "int \<Rightarrow> nat \<Rightarrow> string \<Rightarrow> string \<Rightarrow> int \<Rightarrow> ('p, 'z) csite_scheme list \<Rightarrow> ('p, 'z) csite_scheme list" where
  "sow_cell n_ucells luc bc_ch bc_t i sites =
     take (nat i * luc) sites
     @ map (sow_site i n_ucells (int luc) bc_ch bc_t) (take luc (drop (nat i * luc) sites))
     @ drop (nat i * luc + luc) sites"

definition sow_cells ::
  "('p, 'z) csite_scheme list \<Rightarrow> int \<Rightarrow> nat \<Rightarrow> string \<Rightarrow> string \<Rightarrow> ('p, 'z) csite_scheme list" where
  "sow_cells sites n_ucells luc bc_ch bc_t =
     fold (sow_cell n_ucells luc bc_ch bc_t) [0..n_ucells - 1] sites"

text \<open>The replication loop of \<open>make_ribbon\<close>: cell \<open>i\<close> is the unit cell shifted by \<open>i*T\<close>,
  its indices offset by \<open>i*len(ucell)\<close>.\<close>

definition replicate_cells :: "vec2 csite list \<Rightarrow> vec2 \<Rightarrow> int \<Rightarrow> vec2 csite list" where
  "replicate_cells ucell T n_ucells =
     concat (map (\<lambda>i.
               map (\<lambda>s. s\<lparr>idx := idx s + i * int (length ucell)\<rparr>)
                 (shifted_lattice ucell (smul (of_int i) T)))
             [0..n_ucells - 1])"

definition make_ribbon :: "lookup \<Rightarrow> tubegen \<Rightarrow> int \<Rightarrow> string \<Rightarrow> string \<Rightarrow> error + vec2 csite list" where
  "make_ribbon site_at g n_ucells bc_ch bc_t =
     (case translation_vector g of
        Inl e \<Rightarrow> Inl e
      | Inr T \<Rightarrow>
          (case make_ucell site_at g of
             Inl e \<Rightarrow> Inl e
           | Inr ucell \<Rightarrow>
               Inr (sow_cells (replicate_cells ucell T n_ucells) n_ucells (length ucell)
                      bc_ch bc_t)))"

section \<open>Tube embedder\<close>

definition roll_site :: "vec2 \<Rightarrow> vec2 \<Rightarrow> real \<Rightarrow> real \<Rightarrow> (vec2, 'z) site_scheme \<Rightarrow> vec3 site" where
  "roll_site uCh uT radius angle_conversion s =
     (let phi = angle_conversion * dot (pos s) uCh;
          z = dot (pos s) uT
      in \<lparr>idx = idx s, pos = (radius * cos phi, radius * sin phi, z),
          neighbours = neighbours s, hopping = hopping s\<rparr>)"

definition roll_tube :: "tubegen \<Rightarrow> (vec2, 'z) site_scheme list \<Rightarrow> error + vec3 site list" where
  "roll_tube g ribbon =
     (let Ch = chiral_vector g; ch = linalg_norm Ch; uCh = vdiv Ch ch in
      case translation_vector g of
        Inl e \<Rightarrow> Inl e
      | Inr T \<Rightarrow>
          (let t = linalg_norm T; uT = vdiv T t;
               radius = diameter g / 2;
               angle_conversion = 2 * pi / linalg_norm (chiral_vector g)
           in Inr (map (roll_site uCh uT radius angle_conversion) ribbon)))"

section \<open>Command line entry\<close>

text \<open>
  The namespace that \<open>argparse\<close> hands to \<open>_parse_args\<close>, and the normalisation and
  checks \<open>_parse_args\<close> performs on it. \<open>parser.error\<close> prints its message and exits.
  \<open>str.lower\<close> is modelled on ASCII, where the accepted tokens live.
\<close>

record cli_args =
  arg_chirality :: "int \<times> int"
  arg_length :: int
  arg_bc_ch :: string
  arg_bc_t :: string
  arg_emb :: string
  arg_spacing :: real
  arg_name :: string
  arg_comment :: string

definition lower_char :: "char \<Rightarrow> char" where
  "lower_char c =
     (let k = (of_char c :: nat) in if 65 \<le> k \<and> k \<le> 90 then char_of (k + 32) else c)"

definition lower :: "string \<Rightarrow> string" where
  "lower s = map lower_char s"

definition normalize_bc :: "string \<Rightarrow> string" where
  "normalize_bc bc =
     (let b = lower bc in
      if b = ''p'' then ''periodic'' else if b = ''o'' then ''open'' else b)"

definition parse_args :: "cli_args \<Rightarrow> error + cli_args" where
  "parse_args a =
     (let emb = lower (arg_emb a) in
      if emb \<noteq> ''2d'' \<and> emb \<noteq> ''3d'' then Inl (ParserError (''Unknown embedding: '' @ emb))
      else
        (let bc_ch = normalize_bc (arg_bc_ch a) in
         if bc_ch \<noteq> ''periodic'' \<and> bc_ch \<noteq> ''open''
           then Inl (ParserError (''Unknown boundary condition for bc_ch: '' @ bc_ch))
         else
           (let bc_t = normalize_bc (arg_bc_t a) in
            if bc_t \<noteq> ''periodic'' \<and> bc_t \<noteq> ''open''
              then Inl (ParserError (''Unknown boundary condition for bc_t: '' @ bc_t))
            else Inr (a\<lparr>arg_emb := emb, arg_bc_ch := bc_ch, arg_bc_t := bc_t\<rparr>))))"

datatype lattice_out = Ribbon "vec2 csite list" | Tube "vec3 site list"

definition run :: "lookup \<Rightarrow> cli_args \<Rightarrow> error + lattice_out" where
  "run site_at in_args =
     (case parse_args in_args of
        Inl e \<Rightarrow> Inl e
      | Inr a \<Rightarrow>
          (let gen = \<lparr>chirality = arg_chirality a, spacing = arg_spacing a\<rparr> in
           case make_ribbon site_at gen (arg_length a) (arg_bc_ch a) (arg_bc_t a) of
             Inl e \<Rightarrow> Inl e
           | Inr lat \<Rightarrow>
               (if arg_emb a = ''3d''
                then (case roll_tube gen lat of Inl e \<Rightarrow> Inl e | Inr tube \<Rightarrow> Inr (Tube tube))
                else Inr (Ribbon lat))))"

section \<open>The bond resolution rule as the specification words it\<close>

text \<open>
  A recorded bond of a unit-cell site is a triple of the neighbour's cell-local index
  and the two crossing flags, each flag in \<open>{-1, 0, +1}\<close>. The specification drops the
  bond in three cases and otherwise resolves it to a ribbon index.
\<close>

definition recorded_bond :: "int \<Rightarrow> int \<times> int \<times> int \<Rightarrow> bool" where
  "recorded_bond cell_size b \<longleftrightarrow>
     (case b of (neigh, xch, xt) \<Rightarrow>
        0 \<le> neigh \<and> neigh < cell_size \<and> xch \<in> {- 1, 0, 1} \<and> xt \<in> {- 1, 0, 1})"

definition bond_dropped :: "int \<Rightarrow> int \<Rightarrow> string \<Rightarrow> string \<Rightarrow> int \<Rightarrow> int \<Rightarrow> bool" where
  "bond_dropped i n_ucells bc_ch bc_t xch xt \<longleftrightarrow>
     (xch \<noteq> 0 \<and> bc_ch = ''open'')
     \<or> (xt = 1 \<and> bc_t = ''open'' \<and> i = n_ucells - 1)
     \<or> (xt = - 1 \<and> bc_t = ''open'' \<and> i = 0)"

definition bond_target :: "int \<Rightarrow> int \<Rightarrow> int \<Rightarrow> int \<Rightarrow> int \<Rightarrow> int" where
  "bond_target i n_ucells cell_size neigh xt =
     neigh + cell_size * (if xt = 0 then i
                          else if xt = 1 then (i + 1) mod n_ucells
                          else (i - 1) mod n_ucells)"

definition resolved_bond :: "int \<Rightarrow> int \<Rightarrow> int \<Rightarrow> string \<Rightarrow> string \<Rightarrow> int \<times> int \<times> int \<Rightarrow> int list" where
  "resolved_bond i n_ucells cell_size bc_ch bc_t b =
     (case b of (neigh, xch, xt) \<Rightarrow>
        if bond_dropped i n_ucells bc_ch bc_t xch xt then []
        else [bond_target i n_ucells cell_size neigh xt])"

section \<open>Boundary and embedding tokens as the specification words them\<close>

text \<open>
  The specification accepts, for a boundary condition, the tokens \<open>periodic\<close> and \<open>open\<close>
  and the shorthands \<open>p\<close> and \<open>o\<close>, case-insensitively, and for the embedding \<open>2d\<close> and
  \<open>3d\<close>; every other token is unrecognised.
\<close>

definition canonical_bc :: "string \<Rightarrow> string option" where
  "canonical_bc tok =
     (let t = lower tok in
      if t = ''periodic'' \<or> t = ''p'' then Some ''periodic''
      else if t = ''open'' \<or> t = ''o'' then Some ''open''
      else None)"

definition canonical_emb :: "string \<Rightarrow> string option" where
  "canonical_emb tok = (let t = lower tok in if t = ''2d'' \<or> t = ''3d'' then Some t else None)"

section \<open>A worked generator: armchair chirality (1, 1), spacing 1\<close>

text \<open>
  Modelled from the spec: the lookup ``find site at approximately position p'' of the
  lattice module, which is not part of the source. In the exact arithmetic of the model
  there is no drift to tolerate, so the lookup returns the first site whose position
  is the queried one.
\<close>

definition at_exact :: lookup where
  "at_exact padded p = find (\<lambda>s. pos s = p) padded"

definition armchair11 :: tubegen where
  "armchair11 = \<lparr>chirality = (1, 1), spacing = 1\<rparr>"

text \<open>The unit cell that \<open>_make_ucell\<close> builds for this generator (four atoms).\<close>

definition armchair11_ucell :: "vec2 csite list" where
  "armchair11_ucell =
     [\<lparr>idx = 0, pos = (0, 0), neighbours = [1, 3, 3], hopping = [1, 1, 1],
       even_attr = True, cross_ch_boundary = [0, - 1, - 1], cross_t_boundary = [0, - 1, 0]\<rparr>,
      \<lparr>idx = 1, pos = (1, 0), neighbours = [0, 2, 2], hopping = [1, 1, 1],
       even_attr = False, cross_ch_boundary = [0, 0, 0], cross_t_boundary = [0, 0, - 1]\<rparr>,
      \<lparr>idx = 2, pos = (3 / 2, sqrt 3 / 2), neighbours = [3, 1, 1], hopping = [1, 1, 1],
       even_attr = True, cross_ch_boundary = [0, 0, 0], cross_t_boundary = [0, 0, 1]\<rparr>,
      \<lparr>idx = 3, pos = (5 / 2, sqrt 3 / 2), neighbours = [2, 0, 0], hopping = [1, 1, 1],
       even_attr = False, cross_ch_boundary = [0, 1, 1], cross_t_boundary = [0, 1, 0]\<rparr>]"

text \<open>The four sites as the placement loop creates them, before they are connected.\<close>

definition armchair11_placed :: "vec2 csite list" where
  "armchair11_placed =
     [new_site 0 (0, 0) True, new_site 1 (1, 0) False,
      new_site 2 (3 / 2, sqrt 3 / 2) True, new_site 3 (5 / 2, sqrt 3 / 2) False]"

text \<open>Two command lines: one with shorthand tokens in upper case, one with an unknown token.\<close>

definition cli_shorthand :: cli_args where
  "cli_shorthand =
     \<lparr>arg_chirality = (1, 1), arg_length = 1, arg_bc_ch = ''P'', arg_bc_t = ''PERIODIC'',
      arg_emb = ''2D'', arg_spacing = 1, arg_name = [], arg_comment = []\<rparr>"

definition cli_unknown :: cli_args where
  "cli_unknown =
     \<lparr>arg_chirality = (1, 1), arg_length = 1, arg_bc_ch = ''banana'', arg_bc_t = ''o'',
      arg_emb = ''3d'', arg_spacing = 1, arg_name = [], arg_comment = []\<rparr>"

text \<open>A valid chirality whose reduced translation vector has a first component above \<open>10\<^sup>1\<^sup>0\<close>.\<close>

definition wide_tube :: tubegen where
  "wide_tube = \<lparr>chirality = (100000000000, 1), spacing = 1\<rparr>"


section \<open>Hexagons and atoms per unit cell\<close>

lemma gcd_dvd_twice_norm:
  "gcd (2 * m + n) (2 * n + m) dvd 2 * (m * m + n * n + m * n)" for n m :: int
proof -
  have "2 * (m * m + n * n + m * n) = n * (2 * n + m) + m * (2 * m + n)"
    by (simp add: algebra_simps)
  then show ?thesis
    by (metis dvd_add dvd_mult gcd_dvd1 gcd_dvd2)
qed

lemma gcd_zero_iff_degenerate:
  "gcd (2 * m + n) (2 * n + m) = 0 \<longleftrightarrow> n = 0 \<and> m = 0" for n m :: int
  by auto

text \<open>
  C6. For every chirality \<open>(n, m)\<close> with \<open>n \<ge> m \<ge> 1\<close>, \<open>n_hex_ucell\<close> returns
  \<open>2(n\<^sup>2 + m\<^sup>2 + nm) / gcd(2m+n, 2n+m)\<close>, the division being exact (the gcd divides
  the numerator, so the floor division loses nothing), \<open>n_atoms_ucell\<close> returns twice
  that, and the atom count is even.
\<close>

theorem n_hex_atoms_ucell:
  fixes n m :: int
  assumes "m \<le> n" and "1 \<le> m"
  shows "\<exists>h. n_hex_ucell \<lparr>chirality = (n, m), spacing = s\<rparr> = Inr h
           \<and> h = 2 * (n\<^sup>2 + m\<^sup>2 + n * m) div gcd (2 * m + n) (2 * n + m)
           \<and> h * gcd (2 * m + n) (2 * n + m) = 2 * (n\<^sup>2 + m\<^sup>2 + n * m)
           \<and> n_atoms_ucell \<lparr>chirality = (n, m), spacing = s\<rparr> = Inr (2 * h)
           \<and> even (2 * h)"
proof -
  let ?d = "gcd (2 * m + n) (2 * n + m)"
  have d0: "?d \<noteq> 0" using assms by auto
  have eq: "2 * (m * m + n * n + m * n) = 2 * (n\<^sup>2 + m\<^sup>2 + n * m)"
    by (simp add: power2_eq_square algebra_simps)
  have "?d dvd 2 * (n\<^sup>2 + m\<^sup>2 + n * m)"
    using gcd_dvd_twice_norm [of m n] by (simp only: eq)
  then have exact: "2 * (n\<^sup>2 + m\<^sup>2 + n * m) div ?d * ?d = 2 * (n\<^sup>2 + m\<^sup>2 + n * m)"
    by simp
  have hex: "n_hex_ucell \<lparr>chirality = (n, m), spacing = s\<rparr>
               = Inr (2 * (n\<^sup>2 + m\<^sup>2 + n * m) div ?d)"
    using d0 by (simp add: n_hex_ucell_def floordiv_def power2_eq_square algebra_simps)
  show ?thesis
    using hex exact by (simp add: n_atoms_ucell_def)
qed

theorem n_hex_atoms_ucell_witness:
  "n_hex_ucell \<lparr>chirality = (4, 2), spacing = 1\<rparr> = Inr 28
     \<and> n_atoms_ucell \<lparr>chirality = (4, 2), spacing = 1\<rparr> = Inr 56"
proof -
  have g: "gcd (8::int) 10 = 2" by code_simp
  have h1: "(2::int) \<le> 4" and h2: "(1::int) \<le> 2" by simp_all
  from n_hex_atoms_ucell [OF h1 h2, of 1] show ?thesis
    by (simp add: g)
qed

section \<open>The sowing loop, site by site\<close>

lemma length_sow_cell: "length (sow_cell n luc bc_ch bc_t i sites) = length sites"
  by (simp add: sow_cell_def) 

lemma sow_cell_nth:
  assumes "j < length sites"
  shows "sow_cell n luc bc_ch bc_t i sites ! j =
           (if nat i * luc \<le> j \<and> j < nat i * luc + luc
            then sow_site i n (int luc) bc_ch bc_t (sites ! j) else sites ! j)"
proof -
  let ?a = "nat i * luc"
  consider "j < ?a" | "?a \<le> j" "j < ?a + luc" | "?a + luc \<le> j" by linarith
  then show ?thesis
  proof cases
    case 1
    then show ?thesis using assms by (simp add: sow_cell_def nth_append)
  next
    case 2
    then have "j - ?a < luc" "j - ?a < length sites - ?a" "?a + (j - ?a) = j"
      using assms by linarith+
    with 2 show ?thesis using assms by (simp add: sow_cell_def nth_append)
  next
    case 3
    then have "?a + luc + (j - (?a + luc)) = j" "\<not> j < ?a" "\<not> j - ?a < luc"
      by linarith+
    with 3 show ?thesis using assms
      by (simp add: sow_cell_def nth_append min_def)
  qed
qed

lemma upto_as_upt: "[0..n - 1] = map int [0..<nat n]"
proof (induction "nat n" arbitrary: n)
  case 0
  then show ?case by simp
next
  case (Suc k)
  then have n: "0 < n" "k = nat (n - 1)" by linarith+
  have "[0..n - 1] = [0..n - 1 - 1] @ [n - 1]"
    using n by (simp add: upto_rec2)
  moreover have "[0..<nat n] = [0..<nat (n - 1)] @ [nat (n - 1)]"
    using Suc.hyps(2) n by (metis upt_Suc_append le0)
  ultimately show ?case using Suc.hyps(1) [OF n(2)] n by simp
qed

lemma sow_prefix_nth:
  assumes "j < length sites"
  shows "length (fold (sow_cell n luc bc_ch bc_t) (map int [0..<k]) sites) = length sites
       \<and> fold (sow_cell n luc bc_ch bc_t) (map int [0..<k]) sites ! j =
           (if j < k * luc then sow_site (int (j div luc)) n (int luc) bc_ch bc_t (sites ! j)
            else sites ! j)"
proof (induction k)
  case 0
  then show ?case by simp
next
  case (Suc k)
  let ?prev = "fold (sow_cell n luc bc_ch bc_t) (map int [0..<k]) sites"
  have len: "length ?prev = length sites" using Suc by simp
  have step: "fold (sow_cell n luc bc_ch bc_t) (map int [0..<Suc k]) sites
                = sow_cell n luc bc_ch bc_t (int k) ?prev"
    by simp
  have jl: "j < length ?prev" using len assms by simp
  show ?case
  proof (cases "k * luc \<le> j \<and> j < k * luc + luc")
    case True
    then have "luc > 0" by auto
    with True have "j div luc = k"
      by (intro div_nat_eqI) (simp_all add: mult.commute)
    with True Suc show ?thesis
      unfolding step by (simp add: length_sow_cell sow_cell_nth [OF jl])
  next
    case False
    with Suc show ?thesis
      unfolding step by (auto simp add: length_sow_cell sow_cell_nth [OF jl])
  qed
qed

lemma sow_cells_nth:
  assumes "j < length sites"
  shows "sow_cells sites n luc bc_ch bc_t ! j =
           (if j < nat n * luc then sow_site (int (j div luc)) n (int luc) bc_ch bc_t (sites ! j)
            else sites ! j)"
  using sow_prefix_nth [OF assms, of n luc bc_ch bc_t "nat n"]
  by (simp add: sow_cells_def upto_as_upt)

lemma length_sow_cells: "length (sow_cells sites n luc bc_ch bc_t) = length sites"
proof (cases sites)
  case Nil
  have "\<And>xs. fold (sow_cell n luc bc_ch bc_t) xs [] = []"
  proof -
    fix xs show "fold (sow_cell n luc bc_ch bc_t) xs [] = []"
      by (induction xs) (simp_all add: sow_cell_def)
  qed
  with Nil show ?thesis by (simp add: sow_cells_def)
next
  case (Cons a list)
  then have "0 < length sites" by simp
  from sow_prefix_nth [OF this, of n luc bc_ch bc_t "nat n"] show ?thesis
    by (simp add: sow_cells_def upto_as_upt)
qed

lemma sow_bonds_resolved:
  assumes "bc_ch = ''periodic'' \<or> bc_ch = ''open''"
      and "bc_t = ''periodic'' \<or> bc_t = ''open''"
      and "\<forall>b \<in> set bs. recorded_bond luc b"
  shows "sow_bonds i n luc bc_ch bc_t bs = concat (map (resolved_bond i n luc bc_ch bc_t) bs)"
  using assms(3)
proof (induction bs)
  case Nil
  then show ?case by simp
next
  case (Cons b bs)
  obtain neigh xch xt where b: "b = (neigh, xch, xt)" by (cases b) auto
  from Cons.prems have fl: "xch \<in> {- 1, 0, 1}" "xt \<in> {- 1, 0, 1}"
    by (simp_all add: b recorded_bond_def)
  have tl: "sow_bonds i n luc bc_ch bc_t bs = concat (map (resolved_bond i n luc bc_ch bc_t) bs)"
    using Cons by simp
  have hd: "sow_bonds i n luc bc_ch bc_t [(neigh, xch, xt)] = resolved_bond i n luc bc_ch bc_t (neigh, xch, xt)"
    using fl assms(1,2)
    by (auto simp add: resolved_bond_def bond_dropped_def bond_target_def mult.commute)
  have "sow_bonds i n luc bc_ch bc_t (b # bs) = sow_bonds i n luc bc_ch bc_t [b] @ sow_bonds i n luc bc_ch bc_t bs"
    by (simp add: b)
  then show ?case using tl hd by (simp add: b)
qed

lemma bond_target_range:
  assumes "0 \<le> i" "i < n" "0 \<le> neigh" "neigh < luc"
  shows "0 \<le> bond_target i n luc neigh xt \<and> bond_target i n luc neigh xt < n * luc"
proof -
  define c where "c = (if xt = 0 then i else if xt = 1 then (i + 1) mod n else (i - 1) mod n)"
  have n: "0 < n" using assms by simp
  have c: "0 \<le> c" "c \<le> n - 1"
    using assms n by (auto simp add: c_def)
  have luc: "0 < luc" using assms by simp
  have t: "bond_target i n luc neigh xt = neigh + luc * c"
    by (simp add: bond_target_def c_def)
  have "0 \<le> luc * c" using c luc by simp
  moreover have "luc * c \<le> luc * (n - 1)" using c luc by (simp add: mult_left_mono)
  moreover have "luc * (n - 1) = n * luc - luc" by (simp add: algebra_simps)
  ultimately show ?thesis using assms t by linarith
qed

section \<open>Evaluating the worked generator\<close>

lemma armchair11_unit_vectors: "unit_vectors armchair11 = ((3 / 2, sqrt 3 / 2), (3 / 2, - sqrt 3 / 2))"
  by (simp add: unit_vectors_def armchair11_def smul_def)

lemma armchair11_chiral_vector: "chiral_vector armchair11 = (3, 0)"
  by (simp add: chiral_vector_def armchair11_unit_vectors vadd_def smul_def) (simp add: armchair11_def)

lemma sqrt_nine: "sqrt 9 = 3"
proof -
  have "sqrt ((3::real)\<^sup>2) = 3" by simp
  then show ?thesis by simp
qed

lemma armchair11_circumference: "linalg_norm (3, 0) = 3"
  by (simp add: linalg_norm_def sqrt_nine)

lemma armchair11_lat_basis: "translation_vector_lat_basis armchair11 = Inr (1, - 1)"
  by (simp add: translation_vector_lat_basis_def armchair11_def)

lemma armchair11_translation_vector: "translation_vector armchair11 = Inr (0, sqrt 3)"
  by (simp add: translation_vector_def armchair11_unit_vectors armchair11_lat_basis vadd_def smul_def)

lemma armchair11_translation_norm: "linalg_norm (0, sqrt 3) = sqrt 3"
  by (simp add: linalg_norm_def)

lemma armchair11_atoms: "n_atoms_ucell armchair11 = Inr 4"
  by (simp add: n_atoms_ucell_def n_hex_ucell_def floordiv_def armchair11_def)

lemma upto_1_4: "[1..4::int] = [1,2,3,4]" by (simp add: upto_rec1)

lemma armchair11_symmetry_vector: "symmetry_vector armchair11 = Inr (3 / 2, sqrt 3 / 2)"
  by (simp add: symmetry_vector_def armchair11_unit_vectors armchair11_lat_basis armchair11_atoms upto_1_4 q_close_to_integer_def sym_q_def fmod_def vadd_def smul_def)

lemma upto_0_1: "[0..1::int] = [0,1]" by (simp add: upto_rec1)

lemma floor_half_sqrt: "\<lfloor>sqrt 3 / (2 * sqrt 3)\<rfloor> = 0"
proof -
  have "sqrt 3 / (2 * sqrt 3) = (1 / 2 :: real)" by simp
  then show ?thesis by simp
qed

lemma armchair11_place_sites:
  "place_sites (1, 0) 3 (0, 1) (sqrt 3) (3 / 2, sqrt 3 / 2) (1, 0) 0 [0, 1]
     = [new_site 0 (0, 0) True, new_site 1 (1, 0) False,
        new_site 2 (3 / 2, sqrt 3 / 2) True, new_site 3 (5 / 2, sqrt 3 / 2) False]"
  by (simp add: Let_def fmod_def dot_def smul_def vadd_def floor_half_sqrt)

lemma armchair11_unit_ch: "vdiv (3, 0) 3 = (1, 0)" by (simp add: vdiv_def)
lemma armchair11_unit_t: "vdiv (0, sqrt 3) (sqrt 3) = (0, 1)" by (simp add: vdiv_def)
lemma armchair11_eo_shift: "smul (1 / 3) (vadd (3 / 2, sqrt 3 / 2) (3 / 2, - (sqrt 3 / 2))) = (1, 0)"
  by (simp add: vadd_def smul_def)

lemma armchair11_make_ucell_connect: "make_ucell at_exact armchair11 = connect_sites at_exact armchair11 armchair11_placed"
  by (simp add: make_ucell_def armchair11_chiral_vector armchair11_circumference armchair11_translation_vector armchair11_translation_norm armchair11_symmetry_vector armchair11_unit_vectors armchair11_atoms armchair11_unit_ch armchair11_unit_t armchair11_eo_shift
       upto_0_1 armchair11_place_sites armchair11_placed_def Let_def del: place_sites.simps)

lemma armchair11_padded: "padded_lattice armchair11 armchair11_placed = Inr (concat (map (\<lambda>(pc, pt).
                 map (\<lambda>s. with_pad s pc pt)
                   (shifted_lattice armchair11_placed (3 * of_int pc, sqrt 3 * of_int pt)))
               [(0,0),(0,1),(0,-1),(1,0),(1,1),(1,-1),(-1,0),(-1,1),(-1,-1)]))"
  by (simp add: padded_lattice_def armchair11_chiral_vector armchair11_translation_vector vadd_def smul_def)

lemma armchair11_connect: "connect_sites at_exact armchair11 armchair11_placed = Inr armchair11_ucell"
  unfolding connect_sites_def armchair11_padded armchair11_unit_vectors
  by (simp add: armchair11_placed_def shifted_lattice_def with_pad_def
      new_site_def connect_site_def at_exact_def vadd_def vsub_def smul_def Let_def
      armchair11_ucell_def)

lemma armchair11_make_ucell: "make_ucell at_exact armchair11 = Inr armchair11_ucell"
  by (simp add: armchair11_make_ucell_connect armchair11_connect)

lemma armchair11_ucell_length: "length armchair11_ucell = 4" by (simp add: armchair11_ucell_def)

lemma armchair11_make_ribbon:
  "make_ribbon at_exact armchair11 n bc_ch bc_t
     = Inr (sow_cells (replicate_cells armchair11_ucell (0, sqrt 3) n) n 4 bc_ch bc_t)"
  by (simp add: make_ribbon_def armchair11_translation_vector armchair11_make_ucell armchair11_ucell_length)

lemma upto_0_0: "[0..0::int] = [0]" by (simp add: upto_rec1)

lemma armchair11_one_cell: "replicate_cells armchair11_ucell (0, sqrt 3) 1 = armchair11_ucell"
  by (simp add: replicate_cells_def upto_0_0 shifted_lattice_def smul_def vadd_def armchair11_ucell_def)

lemma armchair11_sow_open:
  "map (\<lambda>s. (neighbours s, hopping s)) (sow_cells armchair11_ucell 1 4 ''open'' ''periodic'')
     = [([1], [1, 1, 1]), ([0, 2, 2], [1, 1, 1]), ([3, 1, 1], [1, 1, 1]), ([2], [1, 1, 1])]"
  by (simp add: sow_cells_def upto_0_0 sow_cell_def sow_site_def site_bonds_def armchair11_ucell_def)

lemma armchair11_sow_periodic:
  "map neighbours (sow_cells armchair11_ucell 1 4 ''periodic'' ''periodic'')
     = [[1, 3, 3], [0, 2, 2], [3, 1, 1], [2, 0, 0]]"
  by (simp add: sow_cells_def upto_0_0 sow_cell_def sow_site_def site_bonds_def armchair11_ucell_def)

lemma armchair11_sow_shorthand:
  "map neighbours (sow_cells armchair11_ucell 1 4 ''p'' ''periodic'')
     = [[1], [0, 2, 2], [3, 1, 1], [2]]"
  by (simp add: sow_cells_def upto_0_0 sow_cell_def sow_site_def site_bonds_def armchair11_ucell_def)

lemma armchair11_sow_unknown:
  "map neighbours (sow_cells armchair11_ucell 1 4 ''banana'' ''periodic'')
     = [[1], [0, 2, 2], [3, 1, 1], [2]]"
  by (simp add: sow_cells_def upto_0_0 sow_cell_def sow_site_def site_bonds_def armchair11_ucell_def)

lemma armchair11_sow_open_open:
  "map neighbours (sow_cells armchair11_ucell 1 4 ''open'' ''open'') = [[1], [0, 2], [3, 1], [2]]"
  by (simp add: sow_cells_def upto_0_0 sow_cell_def sow_site_def site_bonds_def armchair11_ucell_def)

lemma bonds_of_site6:
  "site_bonds (replicate_cells armchair11_ucell (0, sqrt 3) 2 ! 6) = [(3, 0, 0), (1, 0, 0), (1, 0, 1)]"
  by (simp add: replicate_cells_def upto_0_1 shifted_lattice_def armchair11_ucell_def site_bonds_def)


section \<open>Bond resolution across cell seams\<close>

text \<open>
  C3. In a ribbon of \<open>n_ucells\<close> cells of \<open>luc\<close> sites, take the site at offset \<open>r\<close> of cell
  \<open>i\<close> (\<open>0 \<le> i < n_ucells\<close>), whose recorded bonds carry crossing flags in \<open>{-1, 0, +1}\<close>
  and cell-local neighbour indices, under boundary conditions periodic or open. After
  \<open>_sow_cells\<close> its neighbour list is, bond by bond in order, what the rule of the
  specification gives: nothing for a dropped bond (circumferential crossing under an open
  circumferential boundary, or an axial crossing out of the last or first cell under an
  open axial boundary), and otherwise the cell-local index plus \<open>luc\<close> times \<open>i\<close>,
  \<open>(i+1) mod n_ucells\<close> or \<open>(i-1) mod n_ucells\<close>. Every resolved index lies in
  \<open>[0, n_ucells*luc)\<close>.
\<close>

theorem sow_cells_resolves_bonds:
  assumes "bc_ch = ''periodic'' \<or> bc_ch = ''open''"
      and "bc_t = ''periodic'' \<or> bc_t = ''open''"
      and "0 \<le> i" and "i < n_ucells" and "r < luc"
      and "nat i * luc + r < length sites"
      and "\<forall>b \<in> set (site_bonds (sites ! (nat i * luc + r))). recorded_bond (int luc) b"
  shows "neighbours (sow_cells sites n_ucells luc bc_ch bc_t ! (nat i * luc + r))
           = concat (map (resolved_bond i n_ucells (int luc) bc_ch bc_t)
                       (site_bonds (sites ! (nat i * luc + r))))
         \<and> (\<forall>k \<in> set (neighbours (sow_cells sites n_ucells luc bc_ch bc_t ! (nat i * luc + r))).
               0 \<le> k \<and> k < n_ucells * int luc)"
proof -
  let ?j = "nat i * luc + r"
  let ?bs = "site_bonds (sites ! ?j)"
  have cell: "?j div luc = nat i" using assms(5) by simp
  have "nat i < nat n_ucells" using assms(3,4) by simp
  then have "nat i * luc + luc \<le> nat n_ucells * luc"
    by (metis Suc_leI mult_Suc mult_le_mono1 add.commute)
  then have inside: "?j < nat n_ucells * luc" using assms(5) by linarith
  have "sow_cells sites n_ucells luc bc_ch bc_t ! ?j
          = sow_site i n_ucells (int luc) bc_ch bc_t (sites ! ?j)"
    using sow_cells_nth [OF assms(6), of n_ucells luc bc_ch bc_t] inside cell assms(3) by simp
  then have nb: "neighbours (sow_cells sites n_ucells luc bc_ch bc_t ! ?j)
          = sow_bonds i n_ucells (int luc) bc_ch bc_t ?bs"
    by (simp add: sow_site_def)
  have res: "sow_bonds i n_ucells (int luc) bc_ch bc_t ?bs
          = concat (map (resolved_bond i n_ucells (int luc) bc_ch bc_t) ?bs)"
    using sow_bonds_resolved [OF assms(1,2,7)] .
  have "0 \<le> k \<and> k < n_ucells * int luc"
    if "k \<in> set (concat (map (resolved_bond i n_ucells (int luc) bc_ch bc_t) ?bs))" for k
  proof -
    from that obtain b where b: "b \<in> set ?bs" "k \<in> set (resolved_bond i n_ucells (int luc) bc_ch bc_t b)"
      by auto
    obtain neigh xch xt where tr: "b = (neigh, xch, xt)" by (cases b) auto
    from b(1) assms(7) have "0 \<le> neigh" "neigh < int luc"
      by (auto simp add: recorded_bond_def tr)
    moreover from b(2) have "k = bond_target i n_ucells (int luc) neigh xt"
      by (simp add: resolved_bond_def tr split: if_splits)
    ultimately show ?thesis
      using bond_target_range [OF assms(3,4), of neigh "int luc" xt] by simp
  qed
  then show ?thesis using nb res by simp
qed


theorem sow_cells_resolves_bonds_witness:
  "neighbours (sow_cells (replicate_cells armchair11_ucell (0, sqrt 3) 2) 2 4 ''periodic'' ''open'' ! 6)
     = [7, 5]
   \<and> set (neighbours (sow_cells (replicate_cells armchair11_ucell (0, sqrt 3) 2) 2 4
                        ''periodic'' ''open'' ! 6)) \<subseteq> {0..<8}"
proof -
  let ?sites = "replicate_cells armchair11_ucell (0, sqrt 3) 2"
  have len: "length ?sites = 8"
    by (simp add: replicate_cells_def upto_0_1 shifted_lattice_def armchair11_ucell_def)
  have h1: "''periodic'' = ''periodic'' \<or> ''periodic'' = ''open''" by simp
  have h2: "''open'' = ''periodic'' \<or> ''open'' = ''open''" by simp
  have h6: "nat 1 * 4 + 2 < length ?sites" by (simp add: len)
  have h7: "\<forall>b \<in> set (site_bonds (?sites ! (nat 1 * 4 + 2))). recorded_bond (int 4) b"
    by (simp add: bonds_of_site6 recorded_bond_def)
  have "(0::int) \<le> 1" "(1::int) < 2" "(2::nat) < 4" by simp_all
  from sow_cells_resolves_bonds [OF h1 h2 this h6 h7]
  show ?thesis
    by (simp add: bonds_of_site6 resolved_bond_def bond_dropped_def bond_target_def)
qed

section \<open>Boundary tokens at the programmatic interface\<close>

lemma sow_bonds_bc_ch:
  "bc_ch \<noteq> ''periodic'' \<Longrightarrow>
     sow_bonds i n luc bc_ch bc_t bs = sow_bonds i n luc ''open'' bc_t bs"
  by (induction bs) auto

lemma sow_bonds_bc_t:
  "bc_t \<noteq> ''periodic'' \<Longrightarrow>
     sow_bonds i n luc bc_ch bc_t bs = sow_bonds i n luc bc_ch ''open'' bs"
  by (induction bs) auto

lemma sow_site_bc_ch:
  assumes "bc_ch \<noteq> ''periodic''"
  shows "sow_site i n l bc_ch bc_t = sow_site i n l ''open'' bc_t"
  by (intro ext) (simp add: sow_site_def sow_bonds_bc_ch [OF assms])

lemma sow_site_bc_t:
  assumes "bc_t \<noteq> ''periodic''"
  shows "sow_site i n l bc_ch bc_t = sow_site i n l bc_ch ''open''"
  by (intro ext) (simp add: sow_site_def sow_bonds_bc_t [OF assms])

lemma sow_cell_bc_ch:
  assumes "bc_ch \<noteq> ''periodic''"
  shows "sow_cell n luc bc_ch bc_t = sow_cell n luc ''open'' bc_t"
  by (intro ext) (simp add: sow_cell_def sow_site_bc_ch [OF assms])

lemma sow_cell_bc_t:
  assumes "bc_t \<noteq> ''periodic''"
  shows "sow_cell n luc bc_ch bc_t = sow_cell n luc bc_ch ''open''"
  by (intro ext) (simp add: sow_cell_def sow_site_bc_t [OF assms])

lemma sow_cells_bc_ch:
  assumes "bc_ch \<noteq> ''periodic''"
  shows "sow_cells sites n luc bc_ch bc_t = sow_cells sites n luc ''open'' bc_t"
  by (simp add: sow_cells_def sow_cell_bc_ch [OF assms])

lemma sow_cells_bc_t:
  assumes "bc_t \<noteq> ''periodic''"
  shows "sow_cells sites n luc bc_ch bc_t = sow_cells sites n luc bc_ch ''open''"
  by (simp add: sow_cells_def sow_cell_bc_t [OF assms])

lemma make_ribbon_error:
  "make_ribbon site_at g n bc_ch bc_t = Inl e \<longleftrightarrow> make_ucell site_at g = Inl e"
proof (cases "translation_vector g")
  case (Inl e')
  then show ?thesis by (simp add: make_ribbon_def make_ucell_def Let_def)
next
  case (Inr T)
  then show ?thesis by (simp add: make_ribbon_def split: sum.splits)
qed


text \<open>
  C10. \<open>make_ribbon\<close> neither validates nor normalises its boundary arguments: any
  \<open>bc_ch\<close> other than the exact string \<open>periodic\<close> gives the ribbon that \<open>open\<close> gives, the
  same holds for \<open>bc_t\<close>, and the only errors \<open>make_ribbon\<close> can return are those of the
  unit cell construction, whatever the boundary tokens are.
\<close>

theorem make_ribbon_unvalidated:
  "(bc_ch \<noteq> ''periodic'' \<longrightarrow>
      make_ribbon site_at g n bc_ch bc_t = make_ribbon site_at g n ''open'' bc_t)
   \<and> (bc_t \<noteq> ''periodic'' \<longrightarrow>
      make_ribbon site_at g n bc_ch bc_t = make_ribbon site_at g n bc_ch ''open'')
   \<and> (make_ribbon site_at g n bc_ch bc_t = Inl e \<longleftrightarrow> make_ucell site_at g = Inl e)"
proof (intro conjI impI)
  assume a: "bc_ch \<noteq> ''periodic''"
  show "make_ribbon site_at g n bc_ch bc_t = make_ribbon site_at g n ''open'' bc_t"
    by (simp add: make_ribbon_def sow_cells_bc_ch [OF a] split: sum.splits)
next
  assume a: "bc_t \<noteq> ''periodic''"
  show "make_ribbon site_at g n bc_ch bc_t = make_ribbon site_at g n bc_ch ''open''"
    by (simp add: make_ribbon_def sow_cells_bc_t [OF a] split: sum.splits)
next
  show "make_ribbon site_at g n bc_ch bc_t = Inl e \<longleftrightarrow> make_ucell site_at g = Inl e"
    by (rule make_ribbon_error)
qed


theorem make_ribbon_unvalidated_witness:
  "''P'' \<noteq> ''periodic'' \<and> ''banana'' \<noteq> ''periodic''
   \<and> map_sum id (map neighbours) (make_ribbon at_exact armchair11 1 ''P'' ''banana'')
       = Inr [[1], [0, 2], [3, 1], [2]]"
proof -
  have "make_ribbon at_exact armchair11 1 ''P'' ''banana''
          = make_ribbon at_exact armchair11 1 ''open'' ''open''"
    using make_ribbon_unvalidated [of "''P''" at_exact armchair11 1 "''banana''"]
          make_ribbon_unvalidated [of "''open''" at_exact armchair11 1 "''banana''"]
    by simp
  then show ?thesis
    by (simp add: armchair11_make_ribbon armchair11_one_cell armchair11_sow_open_open)
qed


section \<open>Alignment of neighbours and hopping\<close>

text \<open>
  The stages that keep the two lists aligned: \<open>_connect_sites\<close> writes one hopping entry
  and one pair of crossing flags per neighbour, \<open>roll_tube\<close> copies both lists, and
  sowing with both boundaries periodic keeps every recorded bond whose axial flag is in
  \<open>{-1, 0, +1}\<close>. Sowing never writes \<open>hopping\<close>.
\<close>

lemma connect_site_aligned:
  "length (hopping (connect_site site_at padded shifts s))
     = length (neighbours (connect_site site_at padded shifts s))
   \<and> length (cross_ch_boundary (connect_site site_at padded shifts s))
     = length (neighbours (connect_site site_at padded shifts s))
   \<and> length (cross_t_boundary (connect_site site_at padded shifts s))
     = length (neighbours (connect_site site_at padded shifts s))"
  by (simp add: connect_site_def Let_def)

lemma connect_sites_aligned:
  assumes "connect_sites site_at g lat = Inr lat'" and "s \<in> set lat'"
  shows "length (hopping s) = length (neighbours s)
       \<and> length (cross_ch_boundary s) = length (neighbours s)
       \<and> length (cross_t_boundary s) = length (neighbours s)"
proof -
  from assms(1) obtain padded shifts where "lat' = map (connect_site site_at padded shifts) lat"
    by (auto simp add: connect_sites_def Let_def split: sum.splits prod.splits)
  with assms(2) obtain s0 where "s = connect_site site_at padded shifts s0" by auto
  then show ?thesis using connect_site_aligned [of site_at padded shifts s0] by simp
qed

lemma make_ucell_aligned:
  assumes "make_ucell site_at g = Inr ucell" and "s \<in> set ucell"
  shows "length (hopping s) = length (neighbours s)"
proof -
  from assms(1) obtain lat where "connect_sites site_at g lat = Inr ucell"
    by (auto simp add: make_ucell_def Let_def split: sum.splits prod.splits)
  from connect_sites_aligned [OF this assms(2)] show ?thesis by simp
qed

lemma roll_tube_aligned:
  assumes "roll_tube g ribbon = Inr tube" and "\<forall>s \<in> set ribbon. length (hopping s) = length (neighbours s)"
  shows "\<forall>s \<in> set tube. length (hopping s) = length (neighbours s)"
proof -
  from assms(1) obtain T where T: "translation_vector g = Inr T"
    by (auto simp add: roll_tube_def Let_def split: sum.splits)
  from assms(1) have "tube = map (roll_site (vdiv (chiral_vector g) (linalg_norm (chiral_vector g)))
                       (vdiv T (linalg_norm T)) (diameter g / 2)
                       (2 * pi / linalg_norm (chiral_vector g))) ribbon"
    by (simp add: roll_tube_def Let_def T)
  with assms(2) show ?thesis by (auto simp add: roll_site_def Let_def)
qed

lemma sow_bonds_periodic_keeps:
  assumes "\<forall>b \<in> set bs. snd (snd b) \<in> {- 1, 0, 1}"
  shows "length (sow_bonds i n luc ''periodic'' ''periodic'' bs) = length bs"
  using assms by (induction bs) auto

lemma sow_site_hopping: "hopping (sow_site i n luc bc_ch bc_t s) = hopping s"
  by (simp add: sow_site_def)

lemma sow_cells_periodic_keeps:
  assumes "j < length sites"
      and "\<forall>b \<in> set (site_bonds (sites ! j)). snd (snd b) \<in> {- 1, 0, 1}"
      and "length (cross_ch_boundary (sites ! j)) = length (neighbours (sites ! j))"
      and "length (cross_t_boundary (sites ! j)) = length (neighbours (sites ! j))"
  shows "length (neighbours (sow_cells sites n luc ''periodic'' ''periodic'' ! j))
           = length (neighbours (sites ! j))
       \<and> hopping (sow_cells sites n luc ''periodic'' ''periodic'' ! j) = hopping (sites ! j)"
proof -
  have "length (site_bonds (sites ! j)) = length (neighbours (sites ! j))"
    using assms(3,4) by (simp add: site_bonds_def)
  then show ?thesis
    using sow_bonds_periodic_keeps [OF assms(2)]
    by (simp add: sow_cells_nth [OF assms(1)] sow_site_def)
qed

text \<open>
  C1. The claim is that every site keeps \<open>len(neighbours) = len(hopping)\<close> at every
  stage. \<open>_connect_sites\<close> establishes it (\<open>hopping = [1]*len(neighbours)\<close>), but
  \<open>_sow_cells\<close> replaces \<open>neighbours\<close> by the surviving bonds and leaves \<open>hopping\<close> as it
  was. For chirality (1, 1), spacing 1, one unit cell, open circumferential and periodic
  axial boundary, the ribbon's sites 0 and 3 end with one neighbour and three hopping
  entries.
\<close>

theorem open_ribbon_hopping_misaligned:
  "map_sum id (map (\<lambda>s. (neighbours s, hopping s)))
     (make_ribbon at_exact armchair11 1 ''open'' ''periodic'')
     = Inr [([1], [1, 1, 1]), ([0, 2, 2], [1, 1, 1]), ([3, 1, 1], [1, 1, 1]), ([2], [1, 1, 1])]"
  by (simp add: armchair11_make_ribbon armchair11_one_cell armchair11_sow_open)


section \<open>Boundary tokens on the command line\<close>

lemma normalize_bc_canonical:
  "canonical_bc tok = Some c \<longleftrightarrow> normalize_bc tok = c \<and> (c = ''periodic'' \<or> c = ''open'')"
  by (auto simp add: canonical_bc_def normalize_bc_def Let_def)

lemma normalize_bc_rejected:
  "canonical_bc tok = None \<longleftrightarrow> normalize_bc tok \<noteq> ''periodic'' \<and> normalize_bc tok \<noteq> ''open''"
  by (auto simp add: canonical_bc_def normalize_bc_def Let_def)

lemma run_of_error: "parse_args a = Inl e \<Longrightarrow> run site_at a = Inl e"
  by (simp add: run_def)

lemma lower_examples:
  "lower ''P'' = ''p''" "lower ''Open'' = ''open''" "lower ''2D'' = ''2d''"
  "lower ''banana'' = ''banana''" "lower ''PERIODIC'' = ''periodic''"
  by code_simp+


text \<open>
  C2 (amended). On the command line path, \<open>_parse_args\<close> accepts for each boundary
  condition the tokens \<open>periodic\<close> and \<open>open\<close> and the shorthands \<open>p\<close> and \<open>o\<close>,
  case-insensitively, and hands \<open>make_ribbon\<close> the normalised tokens \<open>periodic\<close>/\<open>open\<close>;
  an unrecognised boundary or embedding token makes the parser report an error, and
  \<open>run\<close> then returns that error and no structure: no generation function is called.
\<close>

theorem run_validates_tokens:
  "(canonical_emb (arg_emb a) = Some e \<and> canonical_bc (arg_bc_ch a) = Some c
      \<and> canonical_bc (arg_bc_t a) = Some t \<longrightarrow>
      parse_args a = Inr (a\<lparr>arg_emb := e, arg_bc_ch := c, arg_bc_t := t\<rparr>)
      \<and> run site_at a =
          (let gen = \<lparr>chirality = arg_chirality a, spacing = arg_spacing a\<rparr> in
           case make_ribbon site_at gen (arg_length a) c t of
             Inl err \<Rightarrow> Inl err
           | Inr lat \<Rightarrow>
               if e = ''3d''
               then (case roll_tube gen lat of Inl err \<Rightarrow> Inl err | Inr tube \<Rightarrow> Inr (Tube tube))
               else Inr (Ribbon lat)))
   \<and> (canonical_emb (arg_emb a) = None \<or> canonical_bc (arg_bc_ch a) = None
        \<or> canonical_bc (arg_bc_t a) = None \<longrightarrow>
      (\<exists>msg. parse_args a = Inl (ParserError msg) \<and> run site_at a = Inl (ParserError msg)))"
proof (intro conjI impI)
  assume ok: "canonical_emb (arg_emb a) = Some e \<and> canonical_bc (arg_bc_ch a) = Some c
      \<and> canonical_bc (arg_bc_t a) = Some t"
  then have e: "lower (arg_emb a) = e" "e = ''2d'' \<or> e = ''3d''"
    by (auto simp add: canonical_emb_def Let_def split: if_splits)
  from ok have c: "normalize_bc (arg_bc_ch a) = c" "c = ''periodic'' \<or> c = ''open''"
    and t: "normalize_bc (arg_bc_t a) = t" "t = ''periodic'' \<or> t = ''open''"
    by (simp_all add: normalize_bc_canonical)
  show p: "parse_args a = Inr (a\<lparr>arg_emb := e, arg_bc_ch := c, arg_bc_t := t\<rparr>)"
    using e c t by (auto simp add: parse_args_def Let_def)
  show "run site_at a =
          (let gen = \<lparr>chirality = arg_chirality a, spacing = arg_spacing a\<rparr> in
           case make_ribbon site_at gen (arg_length a) c t of
             Inl err \<Rightarrow> Inl err
           | Inr lat \<Rightarrow>
               if e = ''3d''
               then (case roll_tube gen lat of Inl err \<Rightarrow> Inl err | Inr tube \<Rightarrow> Inr (Tube tube))
               else Inr (Ribbon lat))"
    by (simp add: run_def p Let_def split: sum.splits)
next
  assume bad: "canonical_emb (arg_emb a) = None \<or> canonical_bc (arg_bc_ch a) = None
        \<or> canonical_bc (arg_bc_t a) = None"
  have emb: "\<exists>msg. parse_args a = Inl (ParserError msg)" if "canonical_emb (arg_emb a) = None"
    using that by (auto simp add: parse_args_def canonical_emb_def Let_def split: if_splits)
  have ch: "\<exists>msg. parse_args a = Inl (ParserError msg)" if "canonical_bc (arg_bc_ch a) = None"
    using that by (auto simp add: parse_args_def normalize_bc_rejected Let_def)
  have t: "\<exists>msg. parse_args a = Inl (ParserError msg)" if "canonical_bc (arg_bc_t a) = None"
    using that by (auto simp add: parse_args_def normalize_bc_rejected Let_def)
  from bad have "\<exists>msg. parse_args a = Inl (ParserError msg)"
    by (elim disjE) (rule emb ch t, assumption)+
  then show "\<exists>msg. parse_args a = Inl (ParserError msg) \<and> run site_at a = Inl (ParserError msg)"
    using run_of_error by blast
qed


theorem run_validates_tokens_witness:
  "parse_args cli_shorthand
     = Inr (cli_shorthand\<lparr>arg_emb := ''2d'', arg_bc_ch := ''periodic'', arg_bc_t := ''periodic''\<rparr>)
   \<and> (\<exists>lat. run at_exact cli_shorthand = Inr (Ribbon lat)
         \<and> map neighbours lat = [[1, 3, 3], [0, 2, 2], [3, 1, 1], [2, 0, 0]])
   \<and> (\<exists>msg. run at_exact cli_unknown = Inl (ParserError msg))"
proof -
  have ok: "canonical_emb (arg_emb cli_shorthand) = Some ''2d''
        \<and> canonical_bc (arg_bc_ch cli_shorthand) = Some ''periodic''
        \<and> canonical_bc (arg_bc_t cli_shorthand) = Some ''periodic''"
    by (simp add: cli_shorthand_def canonical_emb_def canonical_bc_def lower_examples)
  have bad: "canonical_emb (arg_emb cli_unknown) = None \<or> canonical_bc (arg_bc_ch cli_unknown) = None
        \<or> canonical_bc (arg_bc_t cli_unknown) = None"
    by (simp add: cli_unknown_def canonical_bc_def lower_examples)
  have gen: "\<lparr>chirality = arg_chirality cli_shorthand, spacing = arg_spacing cli_shorthand\<rparr> = armchair11"
    by (simp add: cli_shorthand_def armchair11_def)
  have len: "arg_length cli_shorthand = 1" by (simp add: cli_shorthand_def)
  from run_validates_tokens [of cli_shorthand "''2d''" "''periodic''" "''periodic''" at_exact] ok
  have "parse_args cli_shorthand
     = Inr (cli_shorthand\<lparr>arg_emb := ''2d'', arg_bc_ch := ''periodic'', arg_bc_t := ''periodic''\<rparr>)"
    and "run at_exact cli_shorthand
           = Inr (Ribbon (sow_cells armchair11_ucell 1 4 ''periodic'' ''periodic''))"
    by (simp_all add: gen len armchair11_make_ribbon armchair11_one_cell)
  moreover from run_validates_tokens [of cli_unknown _ _ _ at_exact] bad
  have "\<exists>msg. run at_exact cli_unknown = Inl (ParserError msg)" by blast
  ultimately show ?thesis by (simp add: armchair11_sow_periodic)
qed

text \<open>
  C2, as stated, fails at the programmatic interface: \<open>make_ribbon\<close> given the shorthand
  \<open>p\<close> builds the ribbon with the circumferential bonds cut (the open ribbon), not the
  periodic one, and given the unrecognised token \<open>banana\<close> it returns a ribbon instead of
  reporting an error.
\<close>

theorem make_ribbon_shorthand_counterexample:
  "map_sum id (map neighbours) (make_ribbon at_exact armchair11 1 ''p'' ''periodic'')
     = Inr [[1], [0, 2, 2], [3, 1, 1], [2]]
   \<and> map_sum id (map neighbours) (make_ribbon at_exact armchair11 1 ''periodic'' ''periodic'')
     = Inr [[1, 3, 3], [0, 2, 2], [3, 1, 1], [2, 0, 0]]
   \<and> map_sum id (map neighbours) (make_ribbon at_exact armchair11 1 ''banana'' ''periodic'')
     = Inr [[1], [0, 2, 2], [3, 1, 1], [2]]"
  by (simp add: armchair11_make_ribbon armchair11_one_cell armchair11_sow_shorthand armchair11_sow_periodic armchair11_sow_unknown)

section \<open>The symmetry vector search\<close>

lemma fmod_one: "fmod x 1 = frac x"
  by (simp add: fmod_def frac_def)

lemma q_close_iff:
  "q_close_to_integer t1 t2 p \<longleftrightarrow> t1 \<noteq> 0 \<and> frac (sym_q t1 t2 p) < 1 / 10 ^ 10"
  by (simp add: q_close_to_integer_def fmod_one abs_of_nonneg)





lemma symmetry_vector_cases:
  assumes "translation_vector_lat_basis g = Inr (t1, t2)" and "n_atoms_ucell g = Inr na"
  shows "symmetry_vector g =
           (case symmetry_search t1 t2 [1..na] of
              None \<Rightarrow> Inl (RuntimeError ''Unable to find symmetry vector'')
            | Some (p, q) \<Rightarrow>
                Inr (vadd (smul (of_int p) (fst (unit_vectors g))) (smul q (snd (unit_vectors g)))))"
  using assms by (simp add: symmetry_vector_def split: prod.splits option.splits)





lemma wide_gcd: "gcd (100000000002::int) 200000000001 = 3"
  by code_simp

lemma wide_tlb: "translation_vector_lat_basis wide_tube = Inr (33333333334, - 66666666667)"
  by (simp add: translation_vector_lat_basis_def wide_tube_def wide_gcd)

lemma wide_atoms: "n_atoms_ucell wide_tube = Inr 13333333333466666666668"
  by (simp add: n_atoms_ucell_def n_hex_ucell_def floordiv_def wide_tube_def wide_gcd)

lemma wide_q: "sym_q 33333333334 (- 66666666667) 1 = - (33333333333 / 16666666667)"
  by (simp add: sym_q_def)

lemma wide_frac: "frac (- (33333333333 / 16666666667) :: real) = 1 / 16666666667"
proof -
  have "\<lfloor>- (33333333333 / 16666666667) :: real\<rfloor> = - 2" by (simp add: floor_eq_iff)
  then show ?thesis by (simp add: frac_def)
qed

lemma wide_close: "q_close_to_integer 33333333334 (- 66666666667) 1"
  by (simp add: q_close_iff wide_q wide_frac)

lemma wide_search:
  "symmetry_search 33333333334 (- 66666666667) [1..13333333333466666666668]
     = Some (1, - (33333333333 / 16666666667))"
proof -
  have le: "(1::int) \<le> 13333333333466666666668" by simp
  have "[1..13333333333466666666668] = 1 # [1 + 1..13333333333466666666668]"
    by (rule upto_rec1 [OF le])
  then show ?thesis
    by (simp only: symmetry_search.simps wide_close wide_q if_True)
qed


lemma wide_integer_solution:
  "sym_q 33333333334 (- 66666666667) 33333333333 = - 66666666665"
  by (simp add: sym_q_def)

text \<open>
  C5. The claim is that the returned vector is \<open>p*a1 + q*a2\<close> for the smallest positive
  \<open>p\<close> in range that makes \<open>q = (1 + p*t2)/t1\<close> an integer, as the comment in the source
  says (``find smallest p that fulfills this equation for integer p, q''). The code tests
  \<open>np.abs(q%1.) < 1e-10\<close> instead. For chirality \<open>(10\<^sup>1\<^sup>1, 1)\<close> the lattice-basis translation
  vector is \<open>(33333333334, -66666666667)\<close> and the range ends at
  \<open>13333333333466666666668\<close>; the first candidate \<open>p = 1\<close> gives
  \<open>q = -33333333333/16666666667\<close>, which lies strictly between \<open>-2\<close> and \<open>-2 + 10\<^sup>-\<^sup>1\<^sup>0\<close>
  with a margin of \<open>10\<^sup>-\<^sup>1\<^sup>5\<close> on both sides (more than the rounding of the one division and
  of the remainder in doubles), so the test passes and the search returns at \<open>p = 1\<close>
  with a \<open>q\<close> that is not an integer. A candidate that makes \<open>q\<close> an integer lies
  further on in the range: \<open>p = 33333333333\<close> gives \<open>q = -66666666665\<close>.
\<close>

theorem symmetry_vector_non_integer_q:
  "translation_vector_lat_basis wide_tube = Inr (33333333334, - 66666666667)
   \<and> n_atoms_ucell wide_tube = Inr 13333333333466666666668
   \<and> symmetry_search 33333333334 (- 66666666667) [1..13333333333466666666668]
       = Some (1, - (33333333333 / 16666666667))
   \<and> symmetry_vector wide_tube
       = Inr (vadd (smul 1 (3 / 2, sqrt 3 / 2))
                   (smul (- (33333333333 / 16666666667)) (3 / 2, - sqrt 3 / 2)))
   \<and> (- (33333333333 / 16666666667) :: real) \<notin> \<int>
   \<and> (- 2 :: real) < - (33333333333 / 16666666667) - 1 / 10 ^ 15
   \<and> - (33333333333 / 16666666667) + 1 / 10 ^ 15 < (- 2 :: real) + 1 / 10 ^ 10
   \<and> sym_q 33333333334 (- 66666666667) 33333333333 = - 66666666665"
proof -
  have uv: "unit_vectors wide_tube = ((3 / 2, sqrt 3 / 2), (3 / 2, - sqrt 3 / 2))"
    by (simp add: unit_vectors_def wide_tube_def smul_def)
  have ni: "(- (33333333333 / 16666666667) :: real) \<notin> \<int>"
  proof
    assume "(- (33333333333 / 16666666667) :: real) \<in> \<int>"
    then have "frac (- (33333333333 / 16666666667) :: real) = 0" by simp
    then show False by (simp only: wide_frac)
  qed
  have lo: "(- 2 :: real) < - (33333333333 / 16666666667) - 1 / 10 ^ 15" by simp
  have hi: "- (33333333333 / 16666666667) + 1 / 10 ^ 15 < (- 2 :: real) + 1 / 10 ^ 10" by simp
  have "symmetry_vector wide_tube
       = Inr (vadd (smul 1 (3 / 2, sqrt 3 / 2))
                   (smul (- (33333333333 / 16666666667)) (3 / 2, - sqrt 3 / 2)))"
    by (simp only: symmetry_vector_cases [OF wide_tlb wide_atoms] wide_search uv
          option.case prod.case fst_conv snd_conv of_int_1)
  with ni lo hi wide_search wide_tlb wide_atoms wide_integer_solution show ?thesis by blast
qed

section \<open>Rolling the ribbon into a tube\<close>

lemma chiral_vector_coords:
  "chiral_vector \<lparr>chirality = (n, m), spacing = s\<rparr>
     = (s * (3 / 2) * (of_int n + of_int m), s * (sqrt 3 / 2) * (of_int n - of_int m))"
  by (simp add: chiral_vector_def unit_vectors_def vadd_def smul_def algebra_simps)

lemma linalg_norm_zero_iff: "linalg_norm v = 0 \<longleftrightarrow> v = (0, 0)"
proof -
  have "(fst v)\<^sup>2 + (snd v)\<^sup>2 = 0 \<longleftrightarrow> fst v = 0 \<and> snd v = 0"
    by (simp add: sum_power2_eq_zero_iff)
  then show ?thesis by (cases v) (simp add: linalg_norm_def)
qed

lemma linalg_norm_nonneg: "0 \<le> linalg_norm v"
  by (simp add: linalg_norm_def)

lemma linalg_norm_unit:
  assumes "linalg_norm v \<noteq> 0"
  shows "linalg_norm (vdiv v (linalg_norm v)) = 1"
proof -
  define S where "S = (fst v)\<^sup>2 + (snd v)\<^sup>2"
  define c where "c = sqrt S"
  have "0 \<le> S" by (simp add: S_def)
  moreover have "S \<noteq> 0" using assms by (simp add: linalg_norm_def S_def)
  ultimately have S: "0 < S" by simp
  have c2: "c\<^sup>2 = S" using S by (simp add: c_def)
  have "(fst v / c)\<^sup>2 + (snd v / c)\<^sup>2 = S / c\<^sup>2"
    by (simp add: power_divide add_divide_distrib S_def)
  also have "\<dots> = 1" using S by (simp add: c2)
  finally show ?thesis
    by (simp add: linalg_norm_def vdiv_def S_def [symmetric] c_def [symmetric])
qed

lemma plane_combination_zero:
  fixes x y s :: real
  assumes "s \<noteq> 0" and "(s * (3 / 2) * (x + y), s * (sqrt 3 / 2) * (x - y)) = (0, 0)"
  shows "x = 0 \<and> y = 0"
proof -
  from assms have "x + y = 0" "x - y = 0" by simp_all
  then show ?thesis by simp
qed

lemma circumference_pos:
  assumes "spacing g \<noteq> 0" and "chirality g \<noteq> (0, 0)"
  shows "0 < circumference g"
proof -
  obtain n m where c: "chirality g = (n, m)" by (cases "chirality g") auto
  then have g: "g = \<lparr>chirality = (n, m), spacing = spacing g\<rparr>" by simp
  have "chiral_vector g \<noteq> (0, 0)"
  proof
    assume "chiral_vector g = (0, 0)"
    then have "(spacing g * (3 / 2) * (of_int n + of_int m),
                spacing g * (sqrt 3 / 2) * (of_int n - of_int m)) = ((0::real), (0::real))"
      using chiral_vector_coords [of n m "spacing g"] g by simp
    from plane_combination_zero [OF assms(1) this] have "n = 0 \<and> m = 0" by simp
    with c assms(2) show False by simp
  qed
  then have "circumference g \<noteq> 0" by (simp add: circumference_def linalg_norm_zero_iff)
  with linalg_norm_nonneg [of "chiral_vector g"] show ?thesis by (simp add: circumference_def)
qed

lemma translation_vector_nonzero:
  assumes "translation_vector g = Inr T" and "spacing g \<noteq> 0"
  shows "chirality g \<noteq> (0, 0) \<and> 0 < linalg_norm T"
proof -
  obtain n m where c: "chirality g = (n, m)" by (cases "chirality g") auto
  define d where "d = gcd (2 * m + n) (2 * n + m)"
  from assms(1) c have d0: "d \<noteq> 0"
    by (auto simp add: translation_vector_def translation_vector_lat_basis_def Let_def d_def
        split: sum.splits if_splits prod.splits)
  then have nz: "\<not> (n = 0 \<and> m = 0)" by (auto simp add: d_def)
  define t1 t2 where "t1 = real_of_int (2 * m + n) / real_of_int d"
    and "t2 = - real_of_int (2 * n + m) / real_of_int d"
  have tl: "translation_vector_lat_basis g = Inr (t1, t2)"
    using d0 c unfolding translation_vector_lat_basis_def Let_def t1_def t2_def d_def by simp
  have "translation_vector g
          = Inr (spacing g * (3 / 2) * (t1 + t2), spacing g * (sqrt 3 / 2) * (t1 - t2))"
    by (simp add: translation_vector_def tl unit_vectors_def vadd_def smul_def algebra_simps)
  with assms(1) have T: "T = (spacing g * (3 / 2) * (t1 + t2), spacing g * (sqrt 3 / 2) * (t1 - t2))"
    by simp
  have "T \<noteq> (0, 0)"
  proof
    assume "T = (0, 0)"
    with T have "(spacing g * (3 / 2) * (t1 + t2), spacing g * (sqrt 3 / 2) * (t1 - t2)) = (0, 0)"
      by simp
    from plane_combination_zero [OF assms(2) this] have "t1 = 0" "t2 = 0" by simp_all
    then have "2 * m + n = 0" "2 * n + m = 0" using d0 by (simp_all add: t1_def t2_def)
    then have "n = 0 \<and> m = 0" by presburger
    with nz show False by simp
  qed
  then have "linalg_norm T \<noteq> 0" by (simp add: linalg_norm_zero_iff)
  with linalg_norm_nonneg [of T] nz c show ?thesis by simp
qed

lemma on_cylinder:
  fixes r :: real
  assumes "0 \<le> r"
  shows "sqrt ((r * cos phi)\<^sup>2 + (r * sin phi)\<^sup>2) = r"
proof -
  have "(r * cos phi)\<^sup>2 + (r * sin phi)\<^sup>2 = r\<^sup>2 * ((cos phi)\<^sup>2 + (sin phi)\<^sup>2)"
    by (simp only: power_mult_distrib distrib_left)
  also have "\<dots> = r\<^sup>2" by simp
  finally show ?thesis using assms by simp
qed

lemma translation_vector_returns:
  assumes "chirality g \<noteq> (0, 0)"
  shows "\<exists>T. translation_vector g = Inr T"
proof -
  obtain n m where c: "chirality g = (n, m)" by (cases "chirality g") auto
  with assms have "gcd (2 * m + n) (2 * n + m) \<noteq> 0"
    using gcd_zero_iff_degenerate [of m n] by auto
  then show ?thesis
    unfolding translation_vector_def translation_vector_lat_basis_def Let_def c
    by (simp split: prod.splits)
qed


text \<open>
  C7. For a generator with a non-degenerate chirality and non-zero spacing, \<open>roll_tube\<close>
  returns one new site per ribbon site, in order, and returns nothing else: the ribbon
  is an argument that the function only reads. The chiral and translation vectors have
  positive length, the two directions onto which positions are projected are unit
  vectors, and the site made from ribbon site \<open>k\<close> has the same \<open>idx\<close>, \<open>neighbours\<close> and
  \<open>hopping\<close> and the position \<open>(radius*cos \<phi>, radius*sin \<phi>, z)\<close> with
  \<open>radius = diameter()/2\<close>, \<open>\<phi> = (2\<pi>/circumference)\<close> times the projection onto the unit
  chiral direction and \<open>z\<close> the projection onto the unit translation direction; its
  distance from the tube axis is \<open>diameter()/2\<close>. (Positions are real numbers in this
  model, so the distance is exact.)
\<close>

theorem roll_tube_embedding:
  assumes "chirality g \<noteq> (0, 0)" and "spacing g \<noteq> 0"
  shows "\<exists>T tube. translation_vector g = Inr T \<and> roll_tube g ribbon = Inr tube
         \<and> 0 < circumference g \<and> 0 < linalg_norm T
         \<and> linalg_norm (vdiv (chiral_vector g) (circumference g)) = 1
         \<and> linalg_norm (vdiv T (linalg_norm T)) = 1
         \<and> length tube = length ribbon
         \<and> (\<forall>k < length ribbon.
               idx (tube ! k) = idx (ribbon ! k)
               \<and> neighbours (tube ! k) = neighbours (ribbon ! k)
               \<and> hopping (tube ! k) = hopping (ribbon ! k)
               \<and> pos (tube ! k) =
                   (diameter g / 2
                      * cos (2 * pi / circumference g
                             * dot (pos (ribbon ! k)) (vdiv (chiral_vector g) (circumference g))),
                    diameter g / 2
                      * sin (2 * pi / circumference g
                             * dot (pos (ribbon ! k)) (vdiv (chiral_vector g) (circumference g))),
                    dot (pos (ribbon ! k)) (vdiv T (linalg_norm T)))
               \<and> sqrt ((fst (pos (tube ! k)))\<^sup>2 + (fst (snd (pos (tube ! k))))\<^sup>2) = diameter g / 2)"
proof -
  from translation_vector_returns [OF assms(1)] obtain T where T: "translation_vector g = Inr T"
    by blast
  let ?uCh = "vdiv (chiral_vector g) (circumference g)"
  let ?uT = "vdiv T (linalg_norm T)"
  let ?ac = "2 * pi / circumference g"
  define tube where "tube = map (roll_site ?uCh ?uT (diameter g / 2) ?ac) ribbon"
  have rt: "roll_tube g ribbon = Inr tube"
    by (simp add: roll_tube_def Let_def T tube_def circumference_def)
  from translation_vector_nonzero [OF T assms(2)]
  have tpos: "0 < linalg_norm T" by simp
  have cpos: "0 < circumference g" using circumference_pos [OF assms(2,1)] .
  have r: "0 \<le> diameter g / 2" using cpos by (simp add: diameter_def)
  have u1: "linalg_norm ?uCh = 1"
    using linalg_norm_unit [of "chiral_vector g"] cpos by (simp add: circumference_def)
  have u2: "linalg_norm ?uT = 1" using linalg_norm_unit [of T] tpos by simp
  have site: "idx (tube ! k) = idx (ribbon ! k)
               \<and> neighbours (tube ! k) = neighbours (ribbon ! k)
               \<and> hopping (tube ! k) = hopping (ribbon ! k)
               \<and> pos (tube ! k) =
                   (diameter g / 2 * cos (?ac * dot (pos (ribbon ! k)) ?uCh),
                    diameter g / 2 * sin (?ac * dot (pos (ribbon ! k)) ?uCh),
                    dot (pos (ribbon ! k)) ?uT)
               \<and> sqrt ((fst (pos (tube ! k)))\<^sup>2 + (fst (snd (pos (tube ! k))))\<^sup>2) = diameter g / 2"
    if "k < length ribbon" for k
  proof -
    have "tube ! k = roll_site ?uCh ?uT (diameter g / 2) ?ac (ribbon ! k)"
      using that by (simp add: tube_def)
    then show ?thesis
      using on_cylinder [OF r, of "?ac * dot (pos (ribbon ! k)) ?uCh"]
      by (simp add: roll_site_def Let_def)
  qed
  have "length tube = length ribbon" by (simp add: tube_def)
  with T rt cpos tpos u1 u2 site show ?thesis by blast
qed


theorem roll_tube_embedding_witness:
  "\<exists>tube. roll_tube armchair11 armchair11_ucell = Inr tube \<and> length tube = 4
      \<and> idx (tube ! 1) = 1 \<and> neighbours (tube ! 1) = [0, 2, 2] \<and> hopping (tube ! 1) = [1, 1, 1]
      \<and> sqrt ((fst (pos (tube ! 1)))\<^sup>2 + (fst (snd (pos (tube ! 1))))\<^sup>2) = 3 / (2 * pi)"
proof -
  have n: "chirality armchair11 \<noteq> (0, 0)" by (simp add: armchair11_def)
  have s: "spacing armchair11 \<noteq> 0" by (simp add: armchair11_def)
  have d: "diameter armchair11 / 2 = 3 / (2 * pi)"
    by (simp add: diameter_def circumference_def armchair11_chiral_vector armchair11_circumference)
  have l: "(1::nat) < length armchair11_ucell" by (simp add: armchair11_ucell_def)
  have c: "idx (armchair11_ucell ! 1) = 1" "neighbours (armchair11_ucell ! 1) = [0, 2, 2]"
      "hopping (armchair11_ucell ! 1) = [1, 1, 1]" "length armchair11_ucell = 4"
    by (simp_all add: armchair11_ucell_def)
  from roll_tube_embedding [OF n s, of armchair11_ucell] l
  obtain tube where "roll_tube armchair11 armchair11_ucell = Inr tube"
    and "length tube = length armchair11_ucell"
    and "idx (tube ! 1) = idx (armchair11_ucell ! 1)"
    and "neighbours (tube ! 1) = neighbours (armchair11_ucell ! 1)"
    and "hopping (tube ! 1) = hopping (armchair11_ucell ! 1)"
    and "sqrt ((fst (pos (tube ! 1)))\<^sup>2 + (fst (snd (pos (tube ! 1))))\<^sup>2) = diameter armchair11 / 2"
    by blast
  then show ?thesis by (simp only: c d) blast
qed

section \<open>Degenerate chirality\<close>

text \<open>
  C9 (amended). The only chirality with \<open>gcd(2m+n, 2n+m) = 0\<close> is \<open>n = m = 0\<close>. Nothing
  validates it: the generator is constructed as for any other pair, and each operation
  that divides by the gcd (\<open>n_hex_ucell\<close>, \<open>n_atoms_ucell\<close>,
  \<open>translation_vector_lat_basis\<close>, \<open>translation_vector\<close>, \<open>symmetry_vector\<close>,
  \<open>make_ribbon\<close>, \<open>roll_tube\<close>) fails with Python's \<open>ZeroDivisionError\<close>; for every
  other chirality \<open>n_hex_ucell\<close> returns a number.
\<close>

theorem degenerate_chirality_divides_by_zero:
  "(gcd (2 * m + n) (2 * n + m) = 0 \<longleftrightarrow> n = 0 \<and> m = 0)
   \<and> (n = 0 \<and> m = 0 \<longrightarrow>
        n_hex_ucell \<lparr>chirality = (n, m), spacing = s\<rparr> = Inl ZeroDivisionError
        \<and> n_atoms_ucell \<lparr>chirality = (n, m), spacing = s\<rparr> = Inl ZeroDivisionError
        \<and> translation_vector_lat_basis \<lparr>chirality = (n, m), spacing = s\<rparr> = Inl ZeroDivisionError
        \<and> translation_vector \<lparr>chirality = (n, m), spacing = s\<rparr> = Inl ZeroDivisionError
        \<and> symmetry_vector \<lparr>chirality = (n, m), spacing = s\<rparr> = Inl ZeroDivisionError
        \<and> make_ribbon site_at \<lparr>chirality = (n, m), spacing = s\<rparr> k bc_ch bc_t
            = Inl ZeroDivisionError
        \<and> roll_tube \<lparr>chirality = (n, m), spacing = s\<rparr> ribbon = Inl ZeroDivisionError)
   \<and> (\<not> (n = 0 \<and> m = 0) \<longrightarrow>
        (\<exists>h. n_hex_ucell \<lparr>chirality = (n, m), spacing = s\<rparr> = Inr h))"
proof (intro conjI impI)
  show "gcd (2 * m + n) (2 * n + m) = 0 \<longleftrightarrow> n = 0 \<and> m = 0"
    by (rule gcd_zero_iff_degenerate)
next
  assume z: "n = 0 \<and> m = 0"
  let ?g = "\<lparr>chirality = (n, m), spacing = s\<rparr>"
  show h: "n_hex_ucell ?g = Inl ZeroDivisionError"
    using z by (simp add: n_hex_ucell_def floordiv_def)
  show "n_atoms_ucell ?g = Inl ZeroDivisionError"
    by (simp add: n_atoms_ucell_def h)
  show tl: "translation_vector_lat_basis ?g = Inl ZeroDivisionError"
    using z by (simp add: translation_vector_lat_basis_def)
  show tv: "translation_vector ?g = Inl ZeroDivisionError"
    by (simp add: translation_vector_def tl split: prod.splits)
  show "symmetry_vector ?g = Inl ZeroDivisionError"
    by (simp add: symmetry_vector_def tl split: prod.splits)
  show "make_ribbon site_at ?g k bc_ch bc_t = Inl ZeroDivisionError"
    by (simp add: make_ribbon_def tv)
  show "roll_tube ?g ribbon = Inl ZeroDivisionError"
    by (simp add: roll_tube_def tv Let_def)
next
  assume "\<not> (n = 0 \<and> m = 0)"
  then have "gcd (2 * m + n) (2 * n + m) \<noteq> 0"
    using gcd_zero_iff_degenerate [of m n] by simp
  then show "\<exists>h. n_hex_ucell \<lparr>chirality = (n, m), spacing = s\<rparr> = Inr h"
    by (simp add: n_hex_ucell_def floordiv_def)
qed


theorem degenerate_chirality_divides_by_zero_witness:
  "n_atoms_ucell \<lparr>chirality = (0, 0), spacing = 2\<rparr> = Inl ZeroDivisionError
   \<and> symmetry_vector \<lparr>chirality = (0, 0), spacing = 2\<rparr> = Inl ZeroDivisionError
   \<and> roll_tube \<lparr>chirality = (0, 0), spacing = 2\<rparr> armchair11_ucell = Inl ZeroDivisionError
   \<and> (\<exists>h. n_hex_ucell \<lparr>chirality = (2, 1), spacing = 2\<rparr> = Inr h)"
  using degenerate_chirality_divides_by_zero [of 0 0 2 at_exact 1 "''periodic''" "''periodic''" armchair11_ucell]
        degenerate_chirality_divides_by_zero [of 1 2 2 at_exact 1 "''periodic''" "''periodic''" armchair11_ucell]
  by simp

text \<open>
  C9, as stated, fails: for \<open>n = m = 0\<close> no configuration error is raised, and the
  division by zero propagates out of \<open>n_hex_ucell\<close> and out of \<open>make_ribbon\<close>.
\<close>

theorem degenerate_chirality_counterexample:
  "n_hex_ucell \<lparr>chirality = (0, 0), spacing = 1\<rparr> = Inl ZeroDivisionError
   \<and> make_ribbon at_exact \<lparr>chirality = (0, 0), spacing = 1\<rparr> 1 ''periodic'' ''periodic''
       = Inl ZeroDivisionError"
  by (simp add: n_hex_ucell_def floordiv_def make_ribbon_def translation_vector_def
      translation_vector_lat_basis_def split: prod.splits)


end
